theory Spec2Isabelle
  imports Complex_Main
begin

section \<open>Python values used by visual.py\<close>

text \<open>
  The script \<^verbatim>\<open>visual.py\<close> holds three tables of decimal literals and draws them with
  matplotlib. Every number in the script is a decimal literal with at most two fractional
  digits, or a sum or product of such literals; the model takes them as rationals
  (\<^typ>\<open>rat\<close>), the values the literals denote. The script's floats are the doubles
  nearest to these: taking the nearest double keeps the order of two decimals, and
  the comparisons and roundings below all have a margin far above a double's relative
  error of \<open>2\<^sup>-\<^sup>5\<^sup>3\<close>. Exceptions are values of \<open>py_error\<close>, and a computation that may
  raise returns \<open>py_error + 'a\<close>.
\<close>

datatype py_error = KeyError string | IndexError | ValueError string | OSError string

definition and_then :: "py_error + 'a \<Rightarrow> ('a \<Rightarrow> py_error + 'b) \<Rightarrow> py_error + 'b" where
  "and_then r f = (case r of Inl e \<Rightarrow> Inl e | Inr v \<Rightarrow> f v)"

text \<open>A dict literal with string keys, in insertion order; \<open>d[k]\<close> raises KeyError.\<close>

type_synonym 'v dict = "(string \<times> 'v) list"

definition getitem :: "'v dict \<Rightarrow> string \<Rightarrow> py_error + 'v" where
  "getitem d k = (case map_of d k of None \<Rightarrow> Inl (KeyError k) | Some v \<Rightarrow> Inr v)"

definition keys :: "'v dict \<Rightarrow> string list" where
  "keys d = map fst d"

text \<open>\<open>xs[i]\<close>: a negative index counts from the end, out of range raises IndexError.\<close>

definition py_index :: "'a list \<Rightarrow> int \<Rightarrow> py_error + 'a" where
  "py_index xs i =
     (let n = int (length xs); j = (if i < 0 then i + n else i)
      in if j < 0 \<or> n \<le> j then Inl IndexError else Inr (xs ! nat j))"

text \<open>\<open>np.arange(n)\<close>: the values 0, 1, ..., n - 1.\<close>

definition arange :: "nat \<Rightarrow> rat list" where
  "arange n = map of_nat [0..<n]"

subsection \<open>Fixed-point formatting\<close>

text \<open>
  The format specs \<^verbatim>\<open>.1f\<close> and \<^verbatim>\<open>.0f\<close> print a number with a fixed count of fractional
  digits, rounding to nearest, ties to even. Strings are byte lists: the two non-ASCII
  signs of the script are their UTF-8 encodings.
\<close>

definition round_half_even :: "rat \<Rightarrow> int" where
  "round_half_even x =
     (let f = \<lfloor>x\<rfloor>; d = x - of_int f
      in if d < 1 / 2 then f
         else if 1 / 2 < d then f + 1
         else if even f then f else f + 1)"

definition digit_char :: "nat \<Rightarrow> char" where
  "digit_char d = char_of (48 + d)"

function digits :: "nat \<Rightarrow> string" where
  "digits n = (if n < 10 then [digit_char n] else digits (n div 10) @ [digit_char (n mod 10)])"
  by pat_completeness auto
termination
  by (relation "measure id") auto

declare digits.simps [simp del]

definition zero_pad :: "nat \<Rightarrow> string \<Rightarrow> string" where
  "zero_pad w s = replicate (w - length s) (CHR ''0'') @ s"

definition format_fixed :: "nat \<Rightarrow> rat \<Rightarrow> string" where
  "format_fixed p x =
     (let m = round_half_even (\<bar>x\<bar> * 10 ^ p);
          whole = nat m div 10 ^ p;
          frac = nat m mod 10 ^ p
      in (if x < 0 then ''-'' else '''') @ digits whole @
         (if p = 0 then '''' else ''.'' @ zero_pad p (digits frac)))"

definition times_sign :: string where
  "times_sign = [CHR 0xC3, CHR 0x97]"

definition mu_sign :: string where
  "mu_sign = [CHR 0xCE, CHR 0xBC]"

section \<open>The measurement tables: load_data\<close>

type_synonym table = "rat list dict"

definition matrix_sizes :: "string list" where
  "matrix_sizes =
     [''64'' @ times_sign @ ''64'' @ times_sign @ ''64'',
      ''128'' @ times_sign @ ''128'' @ times_sign @ ''128'',
      ''256'' @ times_sign @ ''256'' @ times_sign @ ''256'']"

definition time_data :: table where
  "time_data =
     [(''cpu'', [4530 / 10, 29859 / 10, 115544 / 10]),
      (''sme_cpu_prep'', [394 / 10, 596 / 10, 1402 / 10]),
      (''sme_sme_prep'', [51 / 10, 188 / 10, 661 / 10]),
      (''sme_4tiles'', [53 / 10, 84 / 10, 230 / 10])]"

definition speedup_data :: table where
  "speedup_data =
     [(''cpu'', [100 / 100, 100 / 100, 100 / 100]),
      (''sme_cpu_prep'', [1150 / 100, 5010 / 100, 8241 / 100]),
      (''sme_sme_prep'', [8882 / 100, 15882 / 100, 17480 / 100]),
      (''sme_4tiles'', [8547 / 100, 35546 / 100, 50237 / 100])]"

definition gflops_data :: table where
  "gflops_data =
     [(''cpu'', [116 / 100, 140 / 100, 290 / 100]),
      (''sme_cpu_prep'', [1331 / 100, 7037 / 100, 23933 / 100]),
      (''sme_sme_prep'', [10280 / 100, 22310 / 100, 50763 / 100]),
      (''sme_4tiles'', [9892 / 100, 49932 / 100, 145889 / 100])]"

definition load_data :: "string list \<times> table \<times> table \<times> table" where
  "load_data = (matrix_sizes, time_data, speedup_data, gflops_data)"

text \<open>The value of method \<open>k\<close> at position \<open>i\<close> of a table: \<open>table[k][i]\<close>.\<close>

definition value_at :: "table \<Rightarrow> string \<Rightarrow> int \<Rightarrow> py_error + rat" where
  "value_at t k i = and_then (getitem t k) (\<lambda>vs. py_index vs i)"

text \<open>
  \<open>le_at t a b i\<close>: both \<open>t[a][i]\<close> and \<open>t[b][i]\<close> exist and the first is at most the
  second.
\<close>

definition le_at :: "table \<Rightarrow> string \<Rightarrow> string \<Rightarrow> int \<Rightarrow> bool" where
  "le_at t a b i =
     (case value_at t a i of
        Inl e \<Rightarrow> False
      | Inr u \<Rightarrow> (case value_at t b i of Inl e \<Rightarrow> False | Inr v \<Rightarrow> u \<le> v))"

subsection \<open>What the spec derives from the time table\<close>

text \<open>
  Rounding to two decimal places, and the two derived quantities in the spec's words:
  the speedup factor is the ratio of the baseline execution time to a variant's execution
  time, and the throughput of an \<open>n\<close> by \<open>n\<close> by \<open>n\<close> multiply taking \<open>t\<close> microseconds is
  \<open>2 n\<^sup>3 / t / 1000\<close> GFLOPS.
\<close>

definition round2 :: "rat \<Rightarrow> rat" where
  "round2 x = of_int (round_half_even (x * 100)) / 100"

definition dims :: "nat list" where
  "dims = [64, 128, 256]"

definition size_label :: "nat \<Rightarrow> string" where
  "size_label n = digits n @ times_sign @ digits n @ times_sign @ digits n"

definition speedup_of_times :: "table \<Rightarrow> string \<Rightarrow> py_error + rat list" where
  "speedup_of_times td k =
     and_then (getitem td ''cpu'') (\<lambda>base.
     and_then (getitem td k) (\<lambda>ts.
       Inr (map (\<lambda>(b, t). round2 (b / t)) (zip base ts))))"

definition gflops_of_times :: "table \<Rightarrow> table" where
  "gflops_of_times td =
     map (\<lambda>(k, ts). (k, map (\<lambda>(n, t). round2 (2 * of_nat n ^ 3 / t / 1000)) (zip dims ts))) td"

section \<open>The drawing surface\<close>

text \<open>
  An axes object of matplotlib, reduced to what the three chart routines put on it: the
  line series, the bar series, the text labels, the horizontal reference lines, the axis
  limits and the scale of the y axis. Fonts, line widths, titles, axis labels, tick labels,
  legends and grids do not move a point or a label and are left out; the palette lookups
  that their calls make are kept, since a missing key raises there.
\<close>

datatype valign = VaTop | VaBottom

datatype axis_scale = Linear | Log

record line2d =
  line_x :: "rat list"
  line_y :: "rat list"
  line_marker :: string
  line_color :: string
  line_label :: string

text \<open>A bar is a rectangle standing on 0: its left edge, its width and its height.\<close>

record rect =
  rect_x :: rat
  rect_width :: rat
  rect_height :: rat

record bar_series =
  bar_rects :: "rect list"
  bar_color :: string
  bar_label :: string

text \<open>
  A text label: its anchor, its content, which edge of the text sits on the anchor
  (\<open>va='top'\<close> hangs the text below the anchor, \<open>va='bottom'\<close> sets it above), its
  colour, and the edge colour of its box when a \<open>bbox\<close> is given.
\<close>

record text_label =
  text_x :: rat
  text_y :: rat
  text_str :: string
  text_va :: valign
  text_color :: string
  text_bbox :: "string option"

record axes =
  ax_lines :: "line2d list"
  ax_bars :: "bar_series list"
  ax_texts :: "text_label list"
  ax_hlines :: "(rat \<times> string) list"
  ax_ylim :: "(rat \<times> rat) option"
  ax_xlim :: "(rat \<times> rat) option"
  ax_yscale :: axis_scale

definition add_subplot :: axes where
  "add_subplot =
     \<lparr>ax_lines = [], ax_bars = [], ax_texts = [], ax_hlines = [],
      ax_ylim = None, ax_xlim = None, ax_yscale = Linear\<rparr>"

text \<open>\<open>ax.plot(x, y, ...)\<close> raises ValueError when x and y differ in length.\<close>

definition plot :: "axes \<Rightarrow> rat list \<Rightarrow> rat list \<Rightarrow> string \<Rightarrow> string \<Rightarrow> string \<Rightarrow> py_error + axes" where
  "plot ax x y marker color label =
     (if length x \<noteq> length y
      then Inl (ValueError ''x and y must have same first dimension'')
      else Inr (ax\<lparr>ax_lines := ax_lines ax @
                  [\<lparr>line_x = x, line_y = y, line_marker = marker,
                    line_color = color, line_label = label\<rparr>]\<rparr>))"

text \<open>
  \<open>ax.bar(x, height, width, ...)\<close> broadcasts x against height: equal lengths pair up, a
  list of length one is repeated, anything else raises ValueError. Bars are centred on x.
  It returns the rectangles beside the changed axes.
\<close>

definition broadcast :: "rat list \<Rightarrow> rat list \<Rightarrow> py_error + (rat \<times> rat) list" where
  "broadcast x h =
     (if length x = length h then Inr (zip x h)
      else if length h = 1 then Inr (map (\<lambda>xi. (xi, hd h)) x)
      else if length x = 1 then Inr (map (\<lambda>hi. (hd x, hi)) h)
      else Inl (ValueError ''shape mismatch''))"

definition bar :: "axes \<Rightarrow> rat list \<Rightarrow> rat list \<Rightarrow> rat \<Rightarrow> string \<Rightarrow> string \<Rightarrow> py_error + axes \<times> rect list" where
  "bar ax x height width label color =
     and_then (broadcast x height) (\<lambda>xh.
       (let bars = map (\<lambda>(xi, hi). \<lparr>rect_x = xi - width / 2, rect_width = width,
                                     rect_height = hi\<rparr>) xh
        in Inr (ax\<lparr>ax_bars := ax_bars ax @
                     [\<lparr>bar_rects = bars, bar_color = color, bar_label = label\<rparr>]\<rparr>, bars)))"

definition ax_text :: "axes \<Rightarrow> rat \<Rightarrow> rat \<Rightarrow> string \<Rightarrow> valign \<Rightarrow> string \<Rightarrow> string option \<Rightarrow> axes" where
  "ax_text ax x y s va color bbox =
     ax\<lparr>ax_texts := ax_texts ax @
          [\<lparr>text_x = x, text_y = y, text_str = s, text_va = va,
            text_color = color, text_bbox = bbox\<rparr>]\<rparr>"

section \<open>setup_plot_style\<close>

text \<open>The palette it returns; the rcParams update is styling only.\<close>

definition setup_plot_style :: "string dict" where
  "setup_plot_style =
     [(''cpu'', ''#7F7F7F''),
      (''sme_cpu_prep'', ''#045DB7''),
      (''sme_sme_prep'', ''#6A178B''),
      (''sme_4tiles'', ''#B580C5''),
      (''grid'', ''#E8E8E8''),
      (''text'', ''#333333''),
      (''baseline'', ''#7F7F7F'')]"

section \<open>create_speedup_plot\<close>

text \<open>A method of a line chart: its key, label, marker and colour.\<close>

type_synonym line_method = "string \<times> string \<times> string \<times> string"

definition speedup_methods :: "string dict \<Rightarrow> py_error + line_method list" where
  "speedup_methods colors =
     and_then (getitem colors ''sme_cpu_prep'') (\<lambda>c1.
     and_then (getitem colors ''sme_sme_prep'') (\<lambda>c2.
     and_then (getitem colors ''sme_4tiles'') (\<lambda>c3.
       Inr [(''sme_cpu_prep'', ''SME (CPU Transpose + Single Tile)'', ''o'', c1),
            (''sme_sme_prep'', ''SME (SME Transpose + Single Tile)'', ''s'', c2),
            (''sme_4tiles'', ''SME (SME Transpose + 4-Tiles Parallel)'', ''D'', c3)])))"

text \<open>The loop \<open>for key, (label, marker, color) in methods.items(): ax.plot(x, data[key], ...)\<close>.\<close>

fun plot_methods :: "axes \<Rightarrow> rat list \<Rightarrow> table \<Rightarrow> line_method list \<Rightarrow> py_error + axes" where
  "plot_methods ax x data [] = Inr ax"
| "plot_methods ax x data ((key, label, marker, color) # methods) =
     and_then (getitem data key) (\<lambda>y.
     and_then (plot ax x y marker color label) (\<lambda>ax'.
       plot_methods ax' x data methods))"

text \<open>The loop \<open>for i, val in enumerate(speedup_data['sme_4tiles'])\<close>, from index \<open>i\<close> on.\<close>

fun annotate_speedup :: "axes \<Rightarrow> rat list \<Rightarrow> string dict \<Rightarrow> nat \<Rightarrow> rat list \<Rightarrow> py_error + axes" where
  "annotate_speedup ax x colors i [] = Inr ax"
| "annotate_speedup ax x colors i (val # vals) =
     (let y_offset = (if i \<noteq> 1 then val * (110 / 100) else val * (115 / 100))
      in and_then (py_index x (int i)) (\<lambda>xi.
         and_then (getitem colors ''sme_4tiles'') (\<lambda>color.
         and_then (getitem colors ''sme_4tiles'') (\<lambda>edgecolor.
           annotate_speedup
             (ax_text ax xi y_offset (format_fixed 1 val @ times_sign) VaBottom color
                (Some edgecolor))
             x colors (Suc i) vals))))"

definition create_speedup_plot :: "axes \<Rightarrow> string list \<Rightarrow> table \<Rightarrow> string dict \<Rightarrow> py_error + axes" where
  "create_speedup_plot ax sizes data colors =
     (let x = arange (length sizes)
      in and_then (speedup_methods colors) (\<lambda>methods.
         and_then (plot_methods ax x data methods) (\<lambda>ax1.
         and_then (getitem data ''sme_4tiles'') (\<lambda>vals.
         and_then (annotate_speedup ax1 x colors 0 vals) (\<lambda>ax2.
         and_then (getitem colors ''baseline'') (\<lambda>baseline.
         and_then (getitem colors ''text'') (\<lambda>text_color.
         and_then (getitem colors ''grid'') (\<lambda>grid_color.
           Inr (ax2\<lparr>ax_hlines := ax_hlines ax2 @ [(1, baseline)],
                    ax_ylim := Some (5 / 10, 600),
                    ax_xlim := Some (- (3 / 10), of_nat (length sizes) - 7 / 10)\<rparr>)))))))))"

section \<open>create_throughput_plot\<close>

text \<open>A method of the bar chart: its key, label, colour and offset in bar widths.\<close>

type_synonym bar_method = "string \<times> string \<times> string \<times> rat"

definition throughput_methods :: "string dict \<Rightarrow> py_error + bar_method list" where
  "throughput_methods colors =
     and_then (getitem colors ''cpu'') (\<lambda>c0.
     and_then (getitem colors ''sme_cpu_prep'') (\<lambda>c1.
     and_then (getitem colors ''sme_sme_prep'') (\<lambda>c2.
     and_then (getitem colors ''sme_4tiles'') (\<lambda>c3.
       Inr [(''cpu'', ''CPU'', c0, - (15 / 10)),
            (''sme_cpu_prep'', ''CPU Prep'' @ [CHR 0x0A] @ ''+ Single'', c1, - (5 / 10)),
            (''sme_sme_prep'', ''SME Prep'' @ [CHR 0x0A] @ ''+ Single'', c2, 5 / 10),
            (''sme_4tiles'', ''SME Prep'' @ [CHR 0x0A] @ ''+ 4-Tiles'', c3, 15 / 10)]))))"

text \<open>
  The loop \<open>for i, (bar, val) in enumerate(zip(bars, values))\<close>, from index \<open>i\<close> on: it
  stops with the shorter list, and labels the bars of odd index.
\<close>

fun annotate_bars :: "axes \<Rightarrow> string \<Rightarrow> nat \<Rightarrow> rect list \<Rightarrow> rat list \<Rightarrow> axes" where
  "annotate_bars ax color i (b # bars) (val # vals) =
     annotate_bars
       (if i mod 2 = 1
        then ax_text ax (rect_x b + rect_width b / 2) (rect_height b * (105 / 100))
               (format_fixed 0 val) VaBottom color None
        else ax)
       color (Suc i) bars vals"
| "annotate_bars ax color i bars vals = ax"

fun bar_methods :: "axes \<Rightarrow> rat list \<Rightarrow> table \<Rightarrow> rat \<Rightarrow> bar_method list \<Rightarrow> py_error + axes" where
  "bar_methods ax x data bar_width [] = Inr ax"
| "bar_methods ax x data bar_width ((key, label, color, offset) # methods) =
     and_then (getitem data key) (\<lambda>vals.
     and_then (bar ax (map (\<lambda>xi. xi + offset * bar_width) x) vals bar_width label color)
       (\<lambda>(ax', bars).
          bar_methods
            (if key = ''sme_4tiles'' then annotate_bars ax' color 0 bars vals else ax')
            x data bar_width methods))"

definition create_throughput_plot :: "axes \<Rightarrow> string list \<Rightarrow> table \<Rightarrow> string dict \<Rightarrow> py_error + axes" where
  "create_throughput_plot ax sizes data colors =
     (let x = arange (length sizes); bar_width = 2 / 10
      in and_then (throughput_methods colors) (\<lambda>methods.
         and_then (bar_methods ax x data bar_width methods) (\<lambda>ax1.
         and_then (getitem colors ''text'') (\<lambda>text_color.
         and_then (getitem colors ''grid'') (\<lambda>grid_color.
           Inr (ax1\<lparr>ax_ylim := Some (0, 1700)\<rparr>))))))"

section \<open>create_execution_time_plot\<close>

definition time_methods :: "string dict \<Rightarrow> py_error + line_method list" where
  "time_methods colors =
     and_then (getitem colors ''cpu'') (\<lambda>c0.
     and_then (getitem colors ''sme_cpu_prep'') (\<lambda>c1.
     and_then (getitem colors ''sme_sme_prep'') (\<lambda>c2.
     and_then (getitem colors ''sme_4tiles'') (\<lambda>c3.
       Inr [(''cpu'', ''CPU Baseline'', ''o'', c0),
            (''sme_cpu_prep'', ''CPU Prep + Single Tile'', ''s'', c1),
            (''sme_sme_prep'', ''SME Prep + Single Tile'', ''^'', c2),
            (''sme_4tiles'', ''SME Prep + 4-Tiles Parallel'', ''D'', c3)]))))"

text \<open>The loop \<open>for i in [0, -1]\<close> over the list of indices still to do.\<close>

fun annotate_best :: "axes \<Rightarrow> rat list \<Rightarrow> rat list \<Rightarrow> string dict \<Rightarrow> int list \<Rightarrow> py_error + axes" where
  "annotate_best ax x best_vals colors [] = Inr ax"
| "annotate_best ax x best_vals colors (i # rest) =
     and_then (py_index best_vals i) (\<lambda>v.
       (let y_offset = (if i = 0 then v * (6 / 10) else v * (15 / 10));
            va = (if i = 0 then VaTop else VaBottom)
        in and_then (py_index x i) (\<lambda>xi.
           and_then (getitem colors ''sme_4tiles'') (\<lambda>color.
           and_then (getitem colors ''sme_4tiles'') (\<lambda>edgecolor.
             annotate_best
               (ax_text ax xi y_offset (format_fixed 1 v @ mu_sign @ ''s'') va color
                  (Some edgecolor))
               x best_vals colors rest)))))"

definition create_execution_time_plot :: "axes \<Rightarrow> string list \<Rightarrow> table \<Rightarrow> string dict \<Rightarrow> py_error + axes" where
  "create_execution_time_plot ax sizes data colors =
     (let x = arange (length sizes)
      in and_then (time_methods colors) (\<lambda>methods.
         and_then (plot_methods ax x data methods) (\<lambda>ax1.
         and_then (getitem data ''sme_4tiles'') (\<lambda>best_vals.
         and_then (annotate_best ax1 x best_vals colors [0, - 1]) (\<lambda>ax2.
         and_then (getitem colors ''text'') (\<lambda>text_color.
         and_then (getitem colors ''grid'') (\<lambda>grid_color.
           Inr (ax2\<lparr>ax_yscale := Log,
                    ax_ylim := Some (3, 20000),
                    ax_xlim := Some (- (3 / 10), of_nat (length sizes) - 7 / 10)\<rparr>))))))))"

section \<open>main\<close>

text \<open>
  The figure holds the three panels. A saved file records the format matplotlib derives
  from the file name's extension (PNG is a raster format, PDF and SVG are vector formats),
  the \<open>dpi\<close> argument and the figure. The world is the
  current working directory, a map from file names to files, with the list of the names
  written so far, in order. Whether the system lets a name be written is a parameter
  (\<open>writable\<close>); savefig raises OSError where it does not and leaves the world as it was.
  A run that raises keeps the files written before. The progress lines printed to
  standard output are left out, and so are failures of the plotting library that do not
  depend on the script's data (a missing style sheet or backend).
\<close>

record figure =
  fig_axes :: "axes list"

datatype file_format = PNG | PDF | SVG

record image_file =
  file_format :: file_format
  file_dpi :: "nat option"
  file_figure :: figure

record world =
  files :: "string \<Rightarrow> image_file option"
  written :: "string list"

datatype outcome = Completed world | Raised py_error world

definition extension :: "string \<Rightarrow> string" where
  "extension name = rev (takeWhile (\<lambda>c. c \<noteq> CHR ''.'') (rev name))"

definition format_of :: "string \<Rightarrow> py_error + file_format" where
  "format_of name =
     (let ext = extension name
      in if ext = ''png'' then Inr PNG
         else if ext = ''pdf'' then Inr PDF
         else if ext = ''svg'' then Inr SVG
         else Inl (ValueError ext))"

definition savefig :: "(string \<Rightarrow> bool) \<Rightarrow> world \<Rightarrow> figure \<Rightarrow> string \<Rightarrow> nat option \<Rightarrow> py_error + world" where
  "savefig writable w fig filename dpi =
     and_then (format_of filename) (\<lambda>fmt.
       if writable filename
       then Inr (w\<lparr>files := (files w)(filename \<mapsto>
                       \<lparr>file_format = fmt, file_dpi = dpi, file_figure = fig\<rparr>),
                    written := written w @ [filename]\<rparr>)
       else Inl (OSError filename))"

text \<open>The three calls of main that fill the panels, each on its own new axes.\<close>

definition main_speedup_chart :: "py_error + axes" where
  "main_speedup_chart =
     (case load_data of (sizes, td, sd, gd) \<Rightarrow>
        create_speedup_plot add_subplot sizes sd setup_plot_style)"

definition main_throughput_chart :: "py_error + axes" where
  "main_throughput_chart =
     (case load_data of (sizes, td, sd, gd) \<Rightarrow>
        create_throughput_plot add_subplot sizes gd setup_plot_style)"

definition main_time_chart :: "py_error + axes" where
  "main_time_chart =
     (case load_data of (sizes, td, sd, gd) \<Rightarrow>
        create_execution_time_plot add_subplot sizes td setup_plot_style)"

text \<open>main up to the figure title, which looks \<open>colors['text']\<close> up.\<close>

definition draw_charts :: "py_error + figure" where
  "draw_charts =
     and_then main_speedup_chart (\<lambda>ax1.
     and_then main_throughput_chart (\<lambda>ax2.
     and_then main_time_chart (\<lambda>ax3.
     and_then (getitem setup_plot_style ''text'') (\<lambda>text_color.
       Inr \<lparr>fig_axes = [ax1, ax2, ax3]\<rparr>))))"

text \<open>The dict \<open>output_formats\<close>: each format with its \<open>dpi\<close> setting.\<close>

definition output_formats :: "nat option dict" where
  "output_formats = [(''png'', Some 300), (''pdf'', None), (''svg'', None)]"

text \<open>The loop \<open>for fmt, settings in output_formats.items()\<close>.\<close>

fun save_formats :: "(string \<Rightarrow> bool) \<Rightarrow> world \<Rightarrow> figure \<Rightarrow> nat option dict \<Rightarrow> outcome" where
  "save_formats writable w fig [] = Completed w"
| "save_formats writable w fig ((fmt, dpi) # rest) =
     (case savefig writable w fig (''sme_matmul_performance.'' @ fmt) dpi of
        Inl e \<Rightarrow> Raised e w
      | Inr w' \<Rightarrow> save_formats writable w' fig rest)"

definition main :: "(string \<Rightarrow> bool) \<Rightarrow> world \<Rightarrow> outcome" where
  "main writable w =
     (case draw_charts of
        Inl e \<Rightarrow> Raised e w
      | Inr fig \<Rightarrow>
          (case save_formats writable w fig output_formats of
             Raised e w1 \<Rightarrow> Raised e w1
           | Completed w1 \<Rightarrow>
               (case savefig writable w1 fig ''sme_matmul_performance_hires.png'' (Some 600) of
                  Inl e \<Rightarrow> Raised e w1
                | Inr w2 \<Rightarrow> Completed w2)))"

section \<open>Reading a chart\<close>

text \<open>
  The labels, lines and bars of a chart that was drawn (none when the routine raised), and
  the tests the claims use: a label hanging below, or set above, a height \<open>y\<close>; every
  plotted height inside the limits of the y axis.
\<close>

definition chart_texts :: "py_error + axes \<Rightarrow> text_label list" where
  "chart_texts r = (case r of Inl e \<Rightarrow> [] | Inr ax \<Rightarrow> ax_texts ax)"

definition chart_lines :: "py_error + axes \<Rightarrow> line2d list" where
  "chart_lines r = (case r of Inl e \<Rightarrow> [] | Inr ax \<Rightarrow> ax_lines ax)"

definition chart_bars :: "py_error + axes \<Rightarrow> bar_series list" where
  "chart_bars r = (case r of Inl e \<Rightarrow> [] | Inr ax \<Rightarrow> ax_bars ax)"

definition below_point :: "text_label \<Rightarrow> rat \<Rightarrow> bool" where
  "below_point t y = (text_va t = VaTop \<and> text_y t < y)"

definition above_point :: "text_label \<Rightarrow> rat \<Rightarrow> bool" where
  "above_point t y = (text_va t = VaBottom \<and> y < text_y t)"

definition plotted_heights :: "axes \<Rightarrow> rat list" where
  "plotted_heights ax =
     concat (map line_y (ax_lines ax)) @
     concat (map (\<lambda>b. map rect_height (bar_rects b)) (ax_bars ax))"

definition within_ylim :: "rat \<Rightarrow> rat \<Rightarrow> py_error + axes \<Rightarrow> bool" where
  "within_ylim lo hi r =
     (case r of
        Inl e \<Rightarrow> False
      | Inr ax \<Rightarrow> ax_ylim ax = Some (lo, hi) \<and>
                 list_all (\<lambda>y. lo \<le> y \<and> y \<le> hi) (plotted_heights ax))"

section \<open>What a complete run leaves behind\<close>

text \<open>
  The names of the four files in the order main saves them, and a directory that already
  holds one of them and a file of another name, to run main in.
\<close>

definition output_names :: "string list" where
  "output_names =
     [''sme_matmul_performance.png'', ''sme_matmul_performance.pdf'',
      ''sme_matmul_performance.svg'', ''sme_matmul_performance_hires.png'']"

definition stale_file :: image_file where
  "stale_file = \<lparr>file_format = PNG, file_dpi = Some 72, file_figure = \<lparr>fig_axes = []\<rparr>\<rparr>"

definition stale_world :: world where
  "stale_world =
     \<lparr>files = [''sme_matmul_performance.png'' \<mapsto> stale_file, ''notes.txt'' \<mapsto> stale_file],
      written = []\<rparr>"

section \<open>Properties of the tables\<close>

lemma floor_numeral_div:
  "\<lfloor>numeral a / numeral b :: rat\<rfloor> = numeral a div numeral b"
  using floor_divide_of_int_eq [of "numeral a" "numeral b", where ?'a = rat] by simp

lemma matrix_sizes_labels: "matrix_sizes = map size_label dims"
  by code_simp

text \<open>
  C8: the three tables returned by load_data have the same four method keys, in the same
  order and without repetition, and each of their value lists has three entries, as many
  as there are matrix-size labels.
\<close>

theorem tables_aligned:
  "(case load_data of (ms, td, sd, gd) \<Rightarrow>
      keys td = [''cpu'', ''sme_cpu_prep'', ''sme_sme_prep'', ''sme_4tiles''] \<and>
      keys sd = keys td \<and> keys gd = keys td \<and> distinct (keys td) \<and>
      length ms = 3 \<and>
      map (\<lambda>(k, vs). length vs) td = replicate 4 (length ms) \<and>
      map (\<lambda>(k, vs). length vs) sd = replicate 4 (length ms) \<and>
      map (\<lambda>(k, vs). length vs) gd = replicate 4 (length ms))"
  by (simp add: load_data_def matrix_sizes_def time_data_def speedup_data_def
      gflops_data_def keys_def numeral_eq_Suc)

text \<open>
  C1 as the spec has it fails: at the first matrix size the time of \<open>sme_4tiles\<close> is 5.3
  and the time of \<open>sme_sme_prep\<close> is 5.1.
\<close>

theorem four_tiles_not_fastest_at_64:
  "value_at time_data ''sme_4tiles'' 0 = Inr (53 / 10) \<and>
   value_at time_data ''sme_sme_prep'' 0 = Inr (51 / 10) \<and>
   \<not> le_at time_data ''sme_4tiles'' ''sme_sme_prep'' 0"
  by (simp add: le_at_def value_at_def and_then_def getitem_def py_index_def time_data_def)

text \<open>
  C1, amended: in the time table of load_data the time of \<open>sme_4tiles\<close> is at most the time
  of every other method at the second and the third matrix size, and at most the times of
  \<open>cpu\<close> and \<open>sme_cpu_prep\<close> at the first; at the first size \<open>sme_sme_prep\<close> is at most
  \<open>sme_4tiles\<close>.
\<close>

theorem four_tiles_fastest_from_128:
  "(case load_data of (ms, td, sd, gd) \<Rightarrow>
      list_all (\<lambda>i. list_all (\<lambda>m. le_at td ''sme_4tiles'' m i)
                  [''cpu'', ''sme_cpu_prep'', ''sme_sme_prep'']) [1, 2] \<and>
      list_all (\<lambda>m. le_at td ''sme_4tiles'' m 0) [''cpu'', ''sme_cpu_prep''] \<and>
      le_at td ''sme_sme_prep'' ''sme_4tiles'' 0)"
  by (simp add: load_data_def le_at_def value_at_def and_then_def getitem_def py_index_def
      time_data_def)

text \<open>
  C2: for each of the three non-baseline methods, the speedup list of load_data is the list
  of the quotients of the \<open>cpu\<close> time by the method's time, size by size, each rounded to
  two decimal places.
\<close>

theorem speedup_is_rounded_ratio:
  "(case load_data of (ms, td, sd, gd) \<Rightarrow>
      list_all (\<lambda>(k, vs). getitem sd k = Inr vs \<and> speedup_of_times td k = Inr vs)
        [(''sme_cpu_prep'', [1150 / 100, 5010 / 100, 8241 / 100]),
         (''sme_sme_prep'', [8882 / 100, 15882 / 100, 17480 / 100]),
         (''sme_4tiles'', [8547 / 100, 35546 / 100, 50237 / 100])])"
  by (simp add: load_data_def speedup_of_times_def and_then_def getitem_def time_data_def
      speedup_data_def round2_def round_half_even_def Let_def floor_numeral_div)

text \<open>
  No quotient is at a rounding tie: each entry of the speedup table, the \<open>cpu\<close> row
  included, is within 0.0049 of the exact quotient of the times, so every way of rounding
  to nearest gives the same two decimals.
\<close>

lemma speedup_ratio_margin:
  "list_all (\<lambda>(k, ss).
       case getitem time_data ''cpu'' of
         Inl e \<Rightarrow> False
       | Inr bs \<Rightarrow>
           (case getitem time_data k of
              Inl e \<Rightarrow> False
            | Inr ts \<Rightarrow>
                list_all (\<lambda>(s, b, t). \<bar>s - b / t\<bar> < 49 / 10000) (zip ss (zip bs ts))))
     speedup_data"
  by (simp add: getitem_def time_data_def speedup_data_def)

text \<open>
  C4: the time table and the throughput table of load_data have the four method keys, and
  for each of them the throughput row holds three values, the method's times \<open>t\<close> at the
  matrix sizes \<open>n\<close> = 64, 128 and 256 turned into \<open>2 n\<^sup>3 / t / 1000\<close> and rounded to two
  decimal places. The throughput table as a whole is the time table mapped in this way, so
  the time table determines it.
\<close>

theorem gflops_is_rounded_rate:
  "(case load_data of (ms, td, sd, gd) \<Rightarrow>
      keys td = [''cpu'', ''sme_cpu_prep'', ''sme_sme_prep'', ''sme_4tiles''] \<and>
      keys gd = keys td \<and>
      list_all (\<lambda>(k, ts, gs).
          getitem td k = Inr ts \<and> getitem gd k = Inr gs \<and>
          getitem (gflops_of_times td) k = Inr gs \<and>
          gs = map (\<lambda>(n, t). round2 (2 * of_nat n ^ 3 / t / 1000))
                 (zip [64, 128, 256 :: nat] ts))
        [(''cpu'', [4530 / 10, 29859 / 10, 115544 / 10], [116 / 100, 140 / 100, 290 / 100]),
         (''sme_cpu_prep'', [394 / 10, 596 / 10, 1402 / 10],
            [1331 / 100, 7037 / 100, 23933 / 100]),
         (''sme_sme_prep'', [51 / 10, 188 / 10, 661 / 10],
            [10280 / 100, 22310 / 100, 50763 / 100]),
         (''sme_4tiles'', [53 / 10, 84 / 10, 230 / 10],
            [9892 / 100, 49932 / 100, 145889 / 100])] \<and>
      gd = gflops_of_times td)"
  by (simp add: load_data_def gflops_of_times_def dims_def time_data_def gflops_data_def
      keys_def getitem_def round2_def round_half_even_def Let_def floor_numeral_div)

text \<open>Nor is any throughput at a rounding tie.\<close>

lemma gflops_rate_margin:
  "list_all (\<lambda>(k, gs).
       case getitem time_data k of
         Inl e \<Rightarrow> False
       | Inr ts \<Rightarrow>
           list_all (\<lambda>(g, n, t). \<bar>g - 2 * of_nat n ^ 3 / t / 1000\<bar> < 49 / 10000)
             (zip gs (zip dims ts)))
     gflops_data"
  by (simp add: getitem_def time_data_def gflops_data_def dims_def)

text \<open>
  C10: in the tables of load_data each of the four methods has three times and three
  throughputs, the value at 128 above the value at 64 and the value at 256 above the value
  at 128; the same holds of the three speedups of every method but \<open>cpu\<close>.
\<close>

theorem tables_strictly_increasing:
  "(case load_data of (ms, td, sd, gd) \<Rightarrow>
      keys td = [''cpu'', ''sme_cpu_prep'', ''sme_sme_prep'', ''sme_4tiles''] \<and>
      keys gd = keys td \<and> keys sd = keys td \<and>
      list_all (\<lambda>(k, v64, v128, v256).
          getitem td k = Inr [v64, v128, v256] \<and> v64 < v128 \<and> v128 < v256)
        [(''cpu'', 4530 / 10, 29859 / 10, 115544 / 10),
         (''sme_cpu_prep'', 394 / 10, 596 / 10, 1402 / 10),
         (''sme_sme_prep'', 51 / 10, 188 / 10, 661 / 10),
         (''sme_4tiles'', 53 / 10, 84 / 10, 230 / 10)] \<and>
      list_all (\<lambda>(k, v64, v128, v256).
          getitem gd k = Inr [v64, v128, v256] \<and> v64 < v128 \<and> v128 < v256)
        [(''cpu'', 116 / 100, 140 / 100, 290 / 100),
         (''sme_cpu_prep'', 1331 / 100, 7037 / 100, 23933 / 100),
         (''sme_sme_prep'', 10280 / 100, 22310 / 100, 50763 / 100),
         (''sme_4tiles'', 9892 / 100, 49932 / 100, 145889 / 100)] \<and>
      list_all (\<lambda>(k, v64, v128, v256).
          getitem sd k = Inr [v64, v128, v256] \<and> v64 < v128 \<and> v128 < v256)
        [(''sme_cpu_prep'', 1150 / 100, 5010 / 100, 8241 / 100),
         (''sme_sme_prep'', 8882 / 100, 15882 / 100, 17480 / 100),
         (''sme_4tiles'', 8547 / 100, 35546 / 100, 50237 / 100)] \<and>
      list_all (\<lambda>(k, vs). sorted_wrt (<) vs) td \<and>
      list_all (\<lambda>(k, vs). sorted_wrt (<) vs) gd \<and>
      list_all (\<lambda>(k, vs). sorted_wrt (<) vs) (filter (\<lambda>(k, vs). k \<noteq> ''cpu'') sd))"
  by (simp add: load_data_def time_data_def speedup_data_def gflops_data_def keys_def
      getitem_def)

section \<open>The three charts main draws\<close>

lemmas table_defs = load_data_def matrix_sizes_def time_data_def speedup_data_def gflops_data_def
  setup_plot_style_def

lemma digit_chars:
  "digit_char 0 = CHR ''0''" "digit_char 1 = CHR ''1''" "digit_char 2 = CHR ''2''"
  "digit_char 3 = CHR ''3''" "digit_char 4 = CHR ''4''" "digit_char 5 = CHR ''5''"
  "digit_char 6 = CHR ''6''" "digit_char 7 = CHR ''7''" "digit_char 8 = CHR ''8''"
  "digit_char 9 = CHR ''9''"
  by code_simp+

lemma speedup_chart_value:
  "main_speedup_chart =
     Inr \<lparr>ax_lines =
            [\<lparr>line_x = [0, 1, 2], line_y = [1150 / 100, 5010 / 100, 8241 / 100],
              line_marker = ''o'', line_color = ''#045DB7'',
              line_label = ''SME (CPU Transpose + Single Tile)''\<rparr>,
             \<lparr>line_x = [0, 1, 2], line_y = [8882 / 100, 15882 / 100, 17480 / 100],
              line_marker = ''s'', line_color = ''#6A178B'',
              line_label = ''SME (SME Transpose + Single Tile)''\<rparr>,
             \<lparr>line_x = [0, 1, 2], line_y = [8547 / 100, 35546 / 100, 50237 / 100],
              line_marker = ''D'', line_color = ''#B580C5'',
              line_label = ''SME (SME Transpose + 4-Tiles Parallel)''\<rparr>],
          ax_bars = [],
          ax_texts =
            [\<lparr>text_x = 0, text_y = 94017 / 1000, text_str = ''85.5'' @ times_sign,
              text_va = VaBottom, text_color = ''#B580C5'', text_bbox = Some ''#B580C5''\<rparr>,
             \<lparr>text_x = 1, text_y = 408779 / 1000, text_str = ''355.5'' @ times_sign,
              text_va = VaBottom, text_color = ''#B580C5'', text_bbox = Some ''#B580C5''\<rparr>,
             \<lparr>text_x = 2, text_y = 552607 / 1000, text_str = ''502.4'' @ times_sign,
              text_va = VaBottom, text_color = ''#B580C5'', text_bbox = Some ''#B580C5''\<rparr>],
          ax_hlines = [(1, ''#7F7F7F'')],
          ax_ylim = Some (5 / 10, 600),
          ax_xlim = Some (- (3 / 10), 23 / 10),
          ax_yscale = Linear\<rparr>"
  by (simp add: main_speedup_chart_def table_defs create_speedup_plot_def speedup_methods_def
      and_then_def getitem_def plot_def arange_def annotate_speedup.simps ax_text_def py_index_def
      add_subplot_def Let_def format_fixed_def round_half_even_def floor_numeral_div
      digits.simps digit_chars zero_pad_def upt_conv_Cons)

lemma throughput_chart_value:
  "main_throughput_chart =
     Inr \<lparr>ax_lines = [],
          ax_bars =
            [\<lparr>bar_rects =
               [\<lparr>rect_x = - (4 / 10), rect_width = 2 / 10, rect_height = 116 / 100\<rparr>,
                \<lparr>rect_x = 6 / 10, rect_width = 2 / 10, rect_height = 140 / 100\<rparr>,
                \<lparr>rect_x = 16 / 10, rect_width = 2 / 10, rect_height = 290 / 100\<rparr>],
              bar_color = ''#7F7F7F'', bar_label = ''CPU''\<rparr>,
             \<lparr>bar_rects =
               [\<lparr>rect_x = - (2 / 10), rect_width = 2 / 10, rect_height = 1331 / 100\<rparr>,
                \<lparr>rect_x = 8 / 10, rect_width = 2 / 10, rect_height = 7037 / 100\<rparr>,
                \<lparr>rect_x = 18 / 10, rect_width = 2 / 10, rect_height = 23933 / 100\<rparr>],
              bar_color = ''#045DB7'', bar_label = ''CPU Prep'' @ [CHR 0x0A] @ ''+ Single''\<rparr>,
             \<lparr>bar_rects =
               [\<lparr>rect_x = 0, rect_width = 2 / 10, rect_height = 10280 / 100\<rparr>,
                \<lparr>rect_x = 1, rect_width = 2 / 10, rect_height = 22310 / 100\<rparr>,
                \<lparr>rect_x = 2, rect_width = 2 / 10, rect_height = 50763 / 100\<rparr>],
              bar_color = ''#6A178B'', bar_label = ''SME Prep'' @ [CHR 0x0A] @ ''+ Single''\<rparr>,
             \<lparr>bar_rects =
               [\<lparr>rect_x = 2 / 10, rect_width = 2 / 10, rect_height = 9892 / 100\<rparr>,
                \<lparr>rect_x = 12 / 10, rect_width = 2 / 10, rect_height = 49932 / 100\<rparr>,
                \<lparr>rect_x = 22 / 10, rect_width = 2 / 10, rect_height = 145889 / 100\<rparr>],
              bar_color = ''#B580C5'', bar_label = ''SME Prep'' @ [CHR 0x0A] @ ''+ 4-Tiles''\<rparr>],
          ax_texts =
            [\<lparr>text_x = 13 / 10, text_y = 524286 / 1000, text_str = ''499'',
              text_va = VaBottom, text_color = ''#B580C5'', text_bbox = None\<rparr>],
          ax_hlines = [],
          ax_ylim = Some (0, 1700),
          ax_xlim = None,
          ax_yscale = Linear\<rparr>"
  by (simp add: main_throughput_chart_def table_defs create_throughput_plot_def throughput_methods_def
      and_then_def getitem_def bar_def broadcast_def arange_def ax_text_def
      add_subplot_def Let_def format_fixed_def round_half_even_def floor_numeral_div
      digits.simps digit_chars zero_pad_def upt_conv_Cons)

lemma time_chart_value:
  "main_time_chart =
     Inr \<lparr>ax_lines =
            [\<lparr>line_x = [0, 1, 2], line_y = [4530 / 10, 29859 / 10, 115544 / 10],
              line_marker = ''o'', line_color = ''#7F7F7F'',
              line_label = ''CPU Baseline''\<rparr>,
             \<lparr>line_x = [0, 1, 2], line_y = [394 / 10, 596 / 10, 1402 / 10],
              line_marker = ''s'', line_color = ''#045DB7'',
              line_label = ''CPU Prep + Single Tile''\<rparr>,
             \<lparr>line_x = [0, 1, 2], line_y = [51 / 10, 188 / 10, 661 / 10],
              line_marker = ''^'', line_color = ''#6A178B'',
              line_label = ''SME Prep + Single Tile''\<rparr>,
             \<lparr>line_x = [0, 1, 2], line_y = [53 / 10, 84 / 10, 230 / 10],
              line_marker = ''D'', line_color = ''#B580C5'',
              line_label = ''SME Prep + 4-Tiles Parallel''\<rparr>],
          ax_bars = [],
          ax_texts =
            [\<lparr>text_x = 0, text_y = 318 / 100, text_str = ''5.3'' @ mu_sign @ ''s'',
              text_va = VaTop, text_color = ''#B580C5'', text_bbox = Some ''#B580C5''\<rparr>,
             \<lparr>text_x = 2, text_y = 345 / 10, text_str = ''23.0'' @ mu_sign @ ''s'',
              text_va = VaBottom, text_color = ''#B580C5'', text_bbox = Some ''#B580C5''\<rparr>],
          ax_hlines = [],
          ax_ylim = Some (3, 20000),
          ax_xlim = Some (- (3 / 10), 23 / 10),
          ax_yscale = Log\<rparr>"
  by (simp add: main_time_chart_def table_defs create_execution_time_plot_def time_methods_def
      and_then_def getitem_def plot_def arange_def ax_text_def py_index_def
      add_subplot_def Let_def format_fixed_def round_half_even_def floor_numeral_div
      digits.simps digit_chars zero_pad_def upt_conv_Cons)

text \<open>
  The labels the bar loop adds, for any bars and values: one for each bar of odd index,
  centred on the bar, a twentieth above its top, holding the value with no fractional
  digit.
\<close>

lemma annotate_bars_texts:
  "ax_texts (annotate_bars ax color i bars vals) =
     ax_texts ax @
     map (\<lambda>(j, b, v).
            \<lparr>text_x = rect_x b + rect_width b / 2, text_y = rect_height b * (105 / 100),
             text_str = format_fixed 0 v, text_va = VaBottom, text_color = color,
             text_bbox = None\<rparr>)
       (filter (\<lambda>(j, b, v). odd j) (enumerate i (zip bars vals)))"
  by (induction ax color i bars vals rule: annotate_bars.induct)
     (auto simp: ax_text_def odd_iff_mod_2_eq_one)

lemmas value_at_defs = le_at_def value_at_def and_then_def getitem_def py_index_def

section \<open>The annotations of the charts\<close>

text \<open>
  C3 as the spec has it fails: the labels of the speedup chart sit on the three points of
  the \<open>sme_4tiles\<close> series, whose value at the first matrix size is 85.47, and the
  \<open>sme_sme_prep\<close> series is drawn at 88.82 there.
\<close>

theorem annotated_series_not_max_at_64:
  "map text_x (chart_texts main_speedup_chart) = [0, 1, 2] \<and>
   map text_str (chart_texts main_speedup_chart) =
     [''85.5'' @ times_sign, ''355.5'' @ times_sign, ''502.4'' @ times_sign] \<and>
   map line_y (chart_lines main_speedup_chart) =
     [[1150 / 100, 5010 / 100, 8241 / 100],
      [8882 / 100, 15882 / 100, 17480 / 100],
      [8547 / 100, 35546 / 100, 50237 / 100]] \<and>
   value_at speedup_data ''sme_4tiles'' 0 = Inr (8547 / 100) \<and>
   value_at speedup_data ''sme_sme_prep'' 0 = Inr (8882 / 100) \<and>
   \<not> le_at speedup_data ''sme_sme_prep'' ''sme_4tiles'' 0"
  by (simp add: speedup_chart_value chart_texts_def chart_lines_def value_at_defs
      speedup_data_def)

text \<open>
  C3, amended: in the speedup chart main draws, each of the three points of the
  \<open>sme_4tiles\<close> series carries a label with its value printed with one fractional digit
  and the times sign, in a box edged in the series colour. That series holds the largest
  speedup of all methods at the second and the third matrix size; at the first it exceeds
  \<open>cpu\<close> and \<open>sme_cpu_prep\<close> and is below \<open>sme_sme_prep\<close>.
\<close>

theorem speedup_annotations:
  "getitem speedup_data ''sme_4tiles'' = Inr [8547 / 100, 35546 / 100, 50237 / 100] \<and>
   map line_y (chart_lines main_speedup_chart) =
     [[1150 / 100, 5010 / 100, 8241 / 100],
      [8882 / 100, 15882 / 100, 17480 / 100],
      [8547 / 100, 35546 / 100, 50237 / 100]] \<and>
   map text_x (chart_texts main_speedup_chart) = [0, 1, 2] \<and>
   map text_str (chart_texts main_speedup_chart) =
     [''85.5'' @ times_sign, ''355.5'' @ times_sign, ''502.4'' @ times_sign] \<and>
   map text_str (chart_texts main_speedup_chart) =
     map (\<lambda>v. format_fixed 1 v @ times_sign) [8547 / 100, 35546 / 100, 50237 / 100] \<and>
   map text_bbox (chart_texts main_speedup_chart) = [Some ''#B580C5'', Some ''#B580C5'', Some ''#B580C5''] \<and>
   list_all (\<lambda>i. list_all (\<lambda>m. le_at speedup_data m ''sme_4tiles'' i)
               [''cpu'', ''sme_cpu_prep'', ''sme_sme_prep'']) [1, 2] \<and>
   list_all (\<lambda>m. le_at speedup_data m ''sme_4tiles'' 0) [''cpu'', ''sme_cpu_prep''] \<and>
   le_at speedup_data ''sme_4tiles'' ''sme_sme_prep'' 0"
  by (simp add: speedup_chart_value chart_texts_def chart_lines_def value_at_defs
      speedup_data_def format_fixed_def round_half_even_def floor_numeral_div
      digits.simps digit_chars zero_pad_def Let_def)

text \<open>
  C5: in the execution-time chart main draws, all four series are drawn over the positions
  0, 1, 2 and there are exactly two labels. Both belong to the \<open>sme_4tiles\<close> series: one
  at its first point, reading 5.3 microseconds and hanging below the point, one at its last
  point, reading 23.0 microseconds and set above the point.
\<close>

theorem time_chart_annotations:
  "getitem time_data ''sme_4tiles'' = Inr [53 / 10, 84 / 10, 230 / 10] \<and>
   map line_x (chart_lines main_time_chart) = [[0, 1, 2], [0, 1, 2], [0, 1, 2], [0, 1, 2]] \<and>
   line_y (last (chart_lines main_time_chart)) = [53 / 10, 84 / 10, 230 / 10] \<and>
   (case chart_texts main_time_chart of
      [t1, t2] \<Rightarrow>
        text_x t1 = 0 \<and> text_str t1 = ''5.3'' @ mu_sign @ ''s'' \<and> below_point t1 (53 / 10) \<and>
        text_x t2 = 2 \<and> text_str t2 = ''23.0'' @ mu_sign @ ''s'' \<and> above_point t2 (230 / 10)
    | _ \<Rightarrow> False)"
  by (simp add: time_chart_value chart_texts_def chart_lines_def getitem_def time_data_def
      below_point_def above_point_def)

text \<open>
  C6: in the throughput chart main draws there is exactly one label. It is centred on the
  second of the three bars of the \<open>sme_4tiles\<close> series, the one bar of odd index, and reads
  499, the bar's value 499.32 with no fractional digit; the first and the third bar of
  that series and all bars of the other three series carry none.
\<close>

theorem throughput_chart_annotations:
  "getitem gflops_data ''sme_4tiles'' = Inr [9892 / 100, 49932 / 100, 145889 / 100] \<and>
   map bar_label (chart_bars main_throughput_chart) =
     [''CPU'', ''CPU Prep'' @ [CHR 0x0A] @ ''+ Single'', ''SME Prep'' @ [CHR 0x0A] @ ''+ Single'',
      ''SME Prep'' @ [CHR 0x0A] @ ''+ 4-Tiles''] \<and>
   bar_rects (last (chart_bars main_throughput_chart)) =
     [\<lparr>rect_x = 2 / 10, rect_width = 2 / 10, rect_height = 9892 / 100\<rparr>,
      \<lparr>rect_x = 12 / 10, rect_width = 2 / 10, rect_height = 49932 / 100\<rparr>,
      \<lparr>rect_x = 22 / 10, rect_width = 2 / 10, rect_height = 145889 / 100\<rparr>] \<and>
   chart_texts main_throughput_chart =
     [\<lparr>text_x = 12 / 10 + (2 / 10) / 2, text_y = 49932 / 100 * (105 / 100),
       text_str = ''499'', text_va = VaBottom, text_color = ''#B580C5'', text_bbox = None\<rparr>]"
  by (simp add: throughput_chart_value chart_texts_def chart_bars_def getitem_def
      gflops_data_def)

text \<open>
  C9: every height plotted in each of the three charts main draws lies inside the limits
  set for that chart's y axis, [0.5, 600] for speedup, [0, 1700] for throughput and
  [3, 20000] for execution time; so does every value of the corresponding table of
  load_data, the \<open>cpu\<close> row of the speedup table included.
\<close>

theorem plotted_values_within_ylim:
  "within_ylim (5 / 10) 600 main_speedup_chart \<and>
   within_ylim 0 1700 main_throughput_chart \<and>
   within_ylim 3 20000 main_time_chart \<and>
   (case load_data of (ms, td, sd, gd) \<Rightarrow>
      list_all (\<lambda>(k, vs). list_all (\<lambda>v. 5 / 10 \<le> v \<and> v \<le> 600) vs) sd \<and>
      list_all (\<lambda>(k, vs). list_all (\<lambda>v. 0 \<le> v \<and> v \<le> 1700) vs) gd \<and>
      list_all (\<lambda>(k, vs). list_all (\<lambda>v. 3 \<le> v \<and> v \<le> 20000) vs) td)"
  by (simp add: within_ylim_def plotted_heights_def speedup_chart_value
      throughput_chart_value time_chart_value load_data_def time_data_def speedup_data_def
      gflops_data_def)

section \<open>The files main writes\<close>

lemma draw_charts_ok: "\<exists>fig. draw_charts = Inr fig"
  by (simp add: draw_charts_def speedup_chart_value throughput_chart_value time_chart_value
      and_then_def getitem_def setup_plot_style_def)

lemma format_of_names:
  "format_of ''sme_matmul_performance.png'' = Inr PNG"
  "format_of ''sme_matmul_performance.pdf'' = Inr PDF"
  "format_of ''sme_matmul_performance.svg'' = Inr SVG"
  "format_of ''sme_matmul_performance_hires.png'' = Inr PNG"
  by (simp_all add: format_of_def extension_def)

lemma main_completes:
  assumes "list_all writable output_names"
  shows "\<exists>w'. main writable w = Completed w'"
proof -
  obtain fig where fig: "draw_charts = Inr fig"
    using draw_charts_ok by blast
  from assms show ?thesis
    by (simp add: main_def fig output_formats_def output_names_def savefig_def and_then_def
        format_of_names)
qed

text \<open>
  C7: a run of main that completes has drawn the figure and has written four files, in
  this order: \<open>sme_matmul_performance.png\<close> as PNG at 300 DPI,
  \<open>sme_matmul_performance.pdf\<close> as PDF and \<open>sme_matmul_performance.svg\<close> as SVG with no
  DPI given, and \<open>sme_matmul_performance_hires.png\<close> as PNG at 600 DPI. Afterwards each of
  the four names holds the new file, whatever it held before, and every other name holds
  what it held before.
\<close>

theorem main_writes_four_files:
  assumes "main writable w = Completed w'"
  shows "\<exists>fig. draw_charts = Inr fig \<and>
           written w' = written w @ output_names \<and>
           files w' = (files w)
             (''sme_matmul_performance.png'' \<mapsto>
                \<lparr>file_format = PNG, file_dpi = Some 300, file_figure = fig\<rparr>,
              ''sme_matmul_performance.pdf'' \<mapsto>
                \<lparr>file_format = PDF, file_dpi = None, file_figure = fig\<rparr>,
              ''sme_matmul_performance.svg'' \<mapsto>
                \<lparr>file_format = SVG, file_dpi = None, file_figure = fig\<rparr>,
              ''sme_matmul_performance_hires.png'' \<mapsto>
                \<lparr>file_format = PNG, file_dpi = Some 600, file_figure = fig\<rparr>)"
proof (cases draw_charts)
  case (Inl e)
  from assms show ?thesis
    by (simp add: main_def Inl)
next
  case (Inr fig)
  from assms show ?thesis
    by (auto simp: main_def Inr output_formats_def output_names_def savefig_def and_then_def
        format_of_names split: if_splits)
qed

text \<open>
  The run in a directory where every name is writable and the first output name is taken:
  it completes, the four names hold the new files and the file of another name is as it
  was.
\<close>

theorem main_writes_four_files_witness:
  "(case main (\<lambda>name. True) stale_world of
      Raised e w' \<Rightarrow> False
    | Completed w' \<Rightarrow>
        written w' = output_names \<and>
        map (\<lambda>name. map_option (\<lambda>f. (file_format f, file_dpi f)) (files w' name))
          (''notes.txt'' # output_names) =
          [Some (PNG, Some 72), Some (PNG, Some 300), Some (PDF, None), Some (SVG, None),
           Some (PNG, Some 600)])"
proof -
  obtain w' where run: "main (\<lambda>name. True) stale_world = Completed w'"
    using main_completes [of "\<lambda>name. True" stale_world] by (auto simp: output_names_def)
  from main_writes_four_files [OF run] show ?thesis
    unfolding run by (auto simp: stale_world_def stale_file_def output_names_def)
qed

end
